theory Spec2Isabelle
  imports Main
begin

section \<open>Python strings and the regular expressions of the source\<close>

text \<open>
  Python \<open>str\<close> values are modelled as Isabelle strings. The character classes below
  are the ASCII part of the classes Python uses (\<open>\d\<close>, \<open>\s\<close>, \<open>str.strip\<close>,
  \<open>str.upper\<close>, \<open>str.lower\<close>, \<open>re.IGNORECASE\<close>): the model reads page text as ASCII text.
\<close>

datatype error = StorageError | OverflowError | FetchError | ServiceError | PublishError

definition is_digit :: "char \<Rightarrow> bool" where
  "is_digit c = (c \<in> set ''0123456789'')"

definition is_upper :: "char \<Rightarrow> bool" where
  "is_upper c = (c \<in> set ''ABCDEFGHIJKLMNOPQRSTUVWXYZ'')"

definition is_space :: "char \<Rightarrow> bool" where
  "is_space c = (c \<in> set [CHR '' '', CHR 0x09, CHR 0x0A, CHR 0x0B, CHR 0x0C, CHR 0x0D,
                            CHR 0x1C, CHR 0x1D, CHR 0x1E, CHR 0x1F])"

definition py_upper_char :: "char \<Rightarrow> char" where
  "py_upper_char c =
     (case map_of (zip ''abcdefghijklmnopqrstuvwxyz'' ''ABCDEFGHIJKLMNOPQRSTUVWXYZ'') c of
        Some u \<Rightarrow> u | None \<Rightarrow> c)"

definition py_lower_char :: "char \<Rightarrow> char" where
  "py_lower_char c =
     (case map_of (zip ''ABCDEFGHIJKLMNOPQRSTUVWXYZ'' ''abcdefghijklmnopqrstuvwxyz'') c of
        Some l \<Rightarrow> l | None \<Rightarrow> c)"

definition py_upper :: "string \<Rightarrow> string" where
  "py_upper s = map py_upper_char s"

definition py_lower :: "string \<Rightarrow> string" where
  "py_lower s = map py_lower_char s"

definition py_strip :: "string \<Rightarrow> string" where
  "py_strip s = rev (dropWhile is_space (rev (dropWhile is_space s)))"

fun startswith :: "string \<Rightarrow> string \<Rightarrow> bool" where
  "startswith s [] = True"
| "startswith [] (p # ps) = False"
| "startswith (c # cs) (p # ps) = (c = p \<and> startswith cs ps)"

text \<open>\<open>p in s\<close> on strings: \<open>p\<close> occurs in \<open>s\<close> as a contiguous substring.\<close>

fun py_in :: "string \<Rightarrow> string \<Rightarrow> bool" where
  "py_in p [] = (p = [])"
| "py_in p (c # cs) = (startswith (c # cs) p \<or> py_in p cs)"

text \<open>\<open>str.replace\<close> of one character by another (\<open>section_number.replace('.', '_')\<close>).\<close>

definition replace_char :: "char \<Rightarrow> char \<Rightarrow> string \<Rightarrow> string" where
  "replace_char a b s = map (\<lambda>c. if c = a then b else c) s"

text \<open>\<open>str(n)\<close> of a Python integer: its decimal digits, with a minus sign when negative.\<close>

definition digit_char :: "nat \<Rightarrow> char" where
  "digit_char d = ''0123456789'' ! d"

function nat_digits :: "nat \<Rightarrow> string" where
  "nat_digits n = (if n < 10 then [digit_char n] else nat_digits (n div 10) @ [digit_char (n mod 10)])"
  by pat_completeness auto
termination
  by (relation "measure id") auto

declare nat_digits.simps [simp del]

definition py_str_int :: "int \<Rightarrow> string" where
  "py_str_int i = (if i < 0 then CHR ''-'' # nat_digits (nat (- i)) else nat_digits (nat i))"

subsection \<open>Backtracking matchers\<close>

text \<open>
  Python's \<open>re\<close> matches by backtracking: an alternation tries its branches in order, a
  greedy quantifier tries the longest repetition first and gives characters back when the
  rest of the pattern fails. A pattern is modelled as a function of its continuation (the
  rest of the pattern) and the input left; the result is what the continuation returns on
  the first successful path.
\<close>

type_synonym 'r cont = "string \<Rightarrow> 'r option"

fun re_lit :: "string \<Rightarrow> 'r cont \<Rightarrow> 'r cont" where
  "re_lit [] k s = k s"
| "re_lit (p # ps) k [] = None"
| "re_lit (p # ps) k (c # cs) = (if c = p then re_lit ps k cs else None)"

text \<open>A literal under \<open>re.IGNORECASE\<close>.\<close>

fun re_lit_ci :: "string \<Rightarrow> 'r cont \<Rightarrow> 'r cont" where
  "re_lit_ci [] k s = k s"
| "re_lit_ci (p # ps) k [] = None"
| "re_lit_ci (p # ps) k (c # cs) =
     (if py_lower_char c = py_lower_char p then re_lit_ci ps k cs else None)"

fun re_alt :: "('r cont \<Rightarrow> 'r cont) list \<Rightarrow> 'r cont \<Rightarrow> 'r cont" where
  "re_alt [] k s = None"
| "re_alt (a # as) k s = (case a k s of Some r \<Rightarrow> Some r | None \<Rightarrow> re_alt as k s)"

fun re_cls :: "(char \<Rightarrow> bool) \<Rightarrow> 'r cont \<Rightarrow> 'r cont" where
  "re_cls p k [] = None"
| "re_cls p k (c # cs) = (if p c then k cs else None)"

text \<open>Greedy \<open>+\<close> and \<open>*\<close> on a character class.\<close>

fun re_plus :: "(char \<Rightarrow> bool) \<Rightarrow> 'r cont \<Rightarrow> 'r cont" where
  "re_plus p k [] = None"
| "re_plus p k (c # cs) =
     (if p c then (case re_plus p k cs of Some r \<Rightarrow> Some r | None \<Rightarrow> k cs) else None)"

fun re_star :: "(char \<Rightarrow> bool) \<Rightarrow> 'r cont \<Rightarrow> 'r cont" where
  "re_star p k [] = k []"
| "re_star p k (c # cs) =
     (if p c then (case re_star p k cs of Some r \<Rightarrow> Some r | None \<Rightarrow> k (c # cs))
      else k (c # cs))"

text \<open>
  Greedy \<open>*\<close> on a sub-pattern that consumes at least one character for each repetition;
  the first argument bounds the number of repetitions and is given the length of the input.
\<close>

primrec re_star_group :: "nat \<Rightarrow> ('r cont \<Rightarrow> 'r cont) \<Rightarrow> 'r cont \<Rightarrow> 'r cont" where
  "re_star_group 0 g k s = k s"
| "re_star_group (Suc n) g k s =
     (case g (re_star_group n g k) s of Some r \<Rightarrow> Some r | None \<Rightarrow> k s)"

text \<open>A capturing group: the continuation receives the text the group consumed.\<close>

definition re_group :: "('r cont \<Rightarrow> 'r cont) \<Rightarrow> (string \<Rightarrow> 'r cont) \<Rightarrow> 'r cont" where
  "re_group g k s = g (\<lambda>rest. k (take (length s - length rest) s) rest) s"

text \<open>\<open>$\<close> without \<open>re.MULTILINE\<close>: the end of the string, or just before a final newline.\<close>

definition re_eol :: "'r cont \<Rightarrow> 'r cont" where
  "re_eol k s = (if s = [] \<or> s = [CHR 0x0A] then k s else None)"

text \<open>\<open>re.search\<close>: the pattern is tried at every position, from the left.\<close>

fun re_search :: "(unit cont \<Rightarrow> unit cont) \<Rightarrow> string \<Rightarrow> bool" where
  "re_search re [] = (re (\<lambda>_. Some ()) [] \<noteq> None)"
| "re_search re (c # cs) = (re (\<lambda>_. Some ()) (c # cs) \<noteq> None \<or> re_search re cs)"

subsection \<open>The requirement-ID pattern\<close>

text \<open>
  \<open>((?:FR|PR|SR|UR|RR|CR|BR|INT)-[A-Z0-9]+-\d{3})\<close>, as \<open>_split_content_into_sections\<close>
  gives it to \<open>re.findall\<close>.
\<close>

definition requirement_tags :: "string list" where
  "requirement_tags = [''FR'', ''PR'', ''SR'', ''UR'', ''RR'', ''CR'', ''BR'', ''INT'']"

definition is_code_char :: "char \<Rightarrow> bool" where
  "is_code_char c = (is_upper c \<or> is_digit c)"

text \<open>The tail \<open>-\d{3}\<close> and the middle \<open>-[A-Z0-9]+\<close> followed by it.\<close>

definition after_code :: "'r cont \<Rightarrow> 'r cont" where
  "after_code k = re_lit ''-'' (re_cls is_digit (re_cls is_digit (re_cls is_digit k)))"

definition body_re :: "'r cont \<Rightarrow> 'r cont" where
  "body_re k = re_lit ''-'' (re_plus is_code_char (after_code k))"

definition requirement_re :: "'r cont \<Rightarrow> 'r cont" where
  "requirement_re k = re_alt (map re_lit requirement_tags) (body_re k)"

text \<open>One match attempt at the start of \<open>s\<close>: the input left after the match.\<close>

definition match_requirement :: "string \<Rightarrow> string option" where
  "match_requirement s = requirement_re Some s"

text \<open>
  The language of the pattern, read off its text: a tag, a dash, one or more characters of
  \<open>[A-Z0-9]\<close>, a dash, three digits.
\<close>

definition requirement_lang :: "string \<Rightarrow> bool" where
  "requirement_lang m =
     (\<exists>tag code d. m = tag @ ''-'' @ code @ ''-'' @ d \<and> tag \<in> set requirement_tags \<and>
        code \<noteq> [] \<and> (\<forall>c\<in>set code. is_code_char c) \<and>
        length d = 3 \<and> (\<forall>c\<in>set d. is_digit c))"

lemma re_lit_prefix:
  "re_lit p k s = (if take (length p) s = p then k (drop (length p) s) else None)"
  by (induction p k s rule: re_lit.induct) auto

lemma re_plus_greedy:
  assumes "\<And>c r. p c \<Longrightarrow> k (c # r) = None"
  shows "re_plus p k s = (if takeWhile p s = [] then None else k (dropWhile p s))"
proof (induction s)
  case Nil
  then show ?case by simp
next
  case (Cons c cs)
  show ?case
  proof (cases "p c")
    case False
    then show ?thesis by simp
  next
    case True
    show ?thesis
    proof (cases cs)
      case Nil
      with True show ?thesis by simp
    next
      case (Cons d ds)
      then show ?thesis using True Cons.IH assms by (auto split: option.splits)
    qed
  qed
qed

lemma after_code_fails: "is_code_char c \<Longrightarrow> after_code k (c # r) = None"
  by (auto simp: after_code_def is_code_char_def is_upper_def is_digit_def)

lemma after_code_eq:
  "after_code k s =
     (case s of
        a # d1 # d2 # d3 # r \<Rightarrow>
          if a = CHR ''-'' \<and> is_digit d1 \<and> is_digit d2 \<and> is_digit d3 then k r else None
      | _ \<Rightarrow> None)"
  by (auto simp: after_code_def split: list.splits)

lemma body_re_eq:
  "body_re k s =
     (case s of
        [] \<Rightarrow> None
      | a # t \<Rightarrow>
          if a = CHR ''-'' \<and> takeWhile is_code_char t \<noteq> []
          then after_code k (dropWhile is_code_char t)
          else None)"
  by (auto simp: body_re_def re_plus_greedy after_code_fails split: list.splits)

lemma tag_alt:
  "re_alt (map re_lit requirement_tags) K s = Some r \<longleftrightarrow>
     (\<exists>tag\<in>set requirement_tags. take (length tag) s = tag \<and> K (drop (length tag) s) = Some r)"
proof (cases s)
  case Nil
  then show ?thesis by (simp add: requirement_tags_def)
next
  case (Cons a t)
  show ?thesis
  proof (cases t)
    case Nil
    with Cons show ?thesis by (simp add: requirement_tags_def)
  next
    case (Cons b u)
    show ?thesis
    proof (cases u)
      case Nil
      with \<open>s = a # t\<close> \<open>t = b # u\<close> show ?thesis
        by (auto simp: requirement_tags_def split: option.splits)
    next
      case (Cons c v)
      with \<open>s = a # t\<close> \<open>t = b # u\<close> show ?thesis
        by (auto simp: requirement_tags_def split: option.splits)
    qed
  qed
qed

text \<open>
  Backtracking finds nothing the greedy reading misses: a match attempt succeeds exactly
  when a prefix of the input is in the language of the pattern, and it consumes that prefix.
\<close>

lemma match_requirement_iff:
  "match_requirement s = Some r \<longleftrightarrow> (\<exists>m. s = m @ r \<and> requirement_lang m)"
proof
  assume "match_requirement s = Some r"
  then obtain tag where tag: "tag \<in> set requirement_tags" "take (length tag) s = tag"
    and b: "body_re Some (drop (length tag) s) = Some r"
    by (auto simp: match_requirement_def requirement_re_def tag_alt)
  define t where "t = drop (length tag) s"
  have s: "s = tag @ t" using tag(2) by (metis append_take_drop_id t_def)
  from b obtain t' where t': "t = CHR ''-'' # t'" "takeWhile is_code_char t' \<noteq> []"
    and a: "after_code Some (dropWhile is_code_char t') = Some r"
    by (auto simp: body_re_eq t_def split: list.splits if_splits)
  from a obtain d1 d2 d3 where d: "dropWhile is_code_char t' = CHR ''-'' # d1 # d2 # d3 # r"
    "is_digit d1" "is_digit d2" "is_digit d3"
    by (auto simp: after_code_eq split: list.splits if_splits)
  let ?code = "takeWhile is_code_char t'"
  have "t' = ?code @ CHR ''-'' # d1 # d2 # d3 # r"
    using d(1) by (metis takeWhile_dropWhile_id)
  then have "s = (tag @ ''-'' @ ?code @ ''-'' @ [d1, d2, d3]) @ r"
    using s t'(1) by simp
  moreover have "requirement_lang (tag @ ''-'' @ ?code @ ''-'' @ [d1, d2, d3])"
    unfolding requirement_lang_def
    using tag(1) t'(2) d(2-4) by (intro exI[of _ tag] exI[of _ ?code] exI[of _ "[d1, d2, d3]"])
      (auto dest: set_takeWhileD)
  ultimately show "\<exists>m. s = m @ r \<and> requirement_lang m" by blast
next
  assume "\<exists>m. s = m @ r \<and> requirement_lang m"
  then obtain tag code d where s: "s = tag @ ''-'' @ code @ ''-'' @ d @ r"
    and tag: "tag \<in> set requirement_tags" and code: "code \<noteq> []" "\<forall>c\<in>set code. is_code_char c"
    and d: "length d = 3" "\<forall>c\<in>set d. is_digit c"
    by (auto simp: requirement_lang_def)
  from d obtain d1 d2 d3 where d3: "d = [d1, d2, d3]"
    by (cases d; cases "tl d"; cases "tl (tl d)") auto
  have nc: "\<not> is_code_char CHR ''-''"
    by (simp add: is_code_char_def is_upper_def is_digit_def)
  have tw: "takeWhile is_code_char (code @ ''-'' @ d @ r) = code"
    using code(2) nc by (simp add: takeWhile_append2)
  have dw: "dropWhile is_code_char (code @ ''-'' @ d @ r) = ''-'' @ d @ r"
    using code(2) nc by (simp add: dropWhile_append2)
  have "body_re Some (''-'' @ code @ ''-'' @ d @ r) = Some r"
    using tw dw code(1) d(2) by (simp add: body_re_eq after_code_eq d3)
  moreover have "take (length tag) s = tag" "drop (length tag) s = ''-'' @ code @ ''-'' @ d @ r"
    using s by simp_all
  ultimately show "match_requirement s = Some r"
    using tag by (auto simp: match_requirement_def requirement_re_def tag_alt)
qed

lemma requirement_lang_nonempty: "requirement_lang m \<Longrightarrow> m \<noteq> []"
  by (auto simp: requirement_lang_def)

lemma match_requirement_shorter: "match_requirement s = Some r \<Longrightarrow> length r < length s"
  by (auto simp: match_requirement_iff dest: requirement_lang_nonempty)

text \<open>
  \<open>re.findall\<close>: scan from the left; a match is recorded and the scan goes on after it,
  otherwise the scan moves one character on. The pattern has one group around the whole of
  it, so each result is the matched text.
\<close>

function findall_requirements :: "string \<Rightarrow> string list" where
  "findall_requirements s =
     (case match_requirement s of
        Some rest \<Rightarrow> take (length s - length rest) s # findall_requirements rest
      | None \<Rightarrow> (case s of [] \<Rightarrow> [] | c # cs \<Rightarrow> findall_requirements cs))"
  by pat_completeness auto
termination
  by (relation "measure length") (auto simp: match_requirement_shorter)

declare findall_requirements.simps [simp del]

section \<open>The data model (models/document.py)\<close>

datatype DocumentType = ABRD | FBRD | UNKNOWN

record DocumentMetadata =
  document_id :: string
  document_type :: DocumentType
  project_code :: string
  document_version :: string
  status :: string
  created_date :: string
  last_updated_date :: string
  document_owner :: string

text \<open>\<open>DocumentMetadata()\<close>: every field at its default.\<close>

definition new_metadata :: DocumentMetadata where
  "new_metadata =
     \<lparr>document_id = [], document_type = UNKNOWN, project_code = [], document_version = [],
      status = [], created_date = [], last_updated_date = [], document_owner = []\<rparr>"

record DocumentSection =
  section_id :: string
  title :: string
  level :: nat
  content :: string
  section_number :: string
  requirement_ids :: "string list"

text \<open>
  \<open>SearchableDocument\<close>. The fields the dictionary of \<open>to_dict\<close> always has come first;
  \<open>vectorized\<close> and \<open>vector\<close> are the two that \<open>to_dict\<close> treats apart. \<open>'v\<close> is the type of
  a vector component.
\<close>

record search_fields =
  sd_id :: string
  sd_content :: string
  sd_source_page_id :: string
  sd_source_page_title :: string
  sd_source_url :: string
  sd_is_section :: bool
  sd_section_id :: string
  sd_section_title :: string
  sd_section_level :: nat
  sd_section_number :: string
  sd_document_type :: DocumentType
  sd_project_code :: string
  sd_document_id :: string
  sd_document_version :: string
  sd_document_status :: string
  sd_created_date :: string
  sd_last_updated_date :: string
  sd_document_owner :: string
  sd_summary :: string
  sd_requirement_ids :: "string list"

record 'v SearchableDocument = search_fields +
  sd_vectorized :: bool
  sd_vector :: "'v list option"

text \<open>
  The dictionary that is published: the key \<open>vectorized\<close> is removed, and the key \<open>vector\<close>
  is kept only when the record is vectorized and its vector is not empty. (The rendering of
  the vector as space-separated text is not modelled: the components stay a list.)
\<close>

record 'v search_dict = search_fields +
  dict_vector :: "'v list option"

definition to_dict :: "'v SearchableDocument \<Rightarrow> 'v search_dict" where
  "to_dict d =
     search_fields.extend (search_fields.truncate d)
       \<lparr>dict_vector =
          (case sd_vector d of
             Some v \<Rightarrow> if sd_vectorized d \<and> v \<noteq> [] then Some v else None
           | None \<Rightarrow> None)\<rparr>"

section \<open>The parse tree (BeautifulSoup)\<close>

text \<open>
  The tree \<open>BeautifulSoup(html, "html.parser")\<close> builds: text nodes and tags with a name,
  attributes (of a type \<open>'a\<close> left open) and children. A document is the list of the nodes
  at its top level.
\<close>

datatype 'a node = Text string | Elem string 'a "'a node list"

fun node_name :: "'a node \<Rightarrow> string option" where
  "node_name (Text t) = None"
| "node_name (Elem n a cs) = Some n"

fun children :: "'a node \<Rightarrow> 'a node list" where
  "children (Text t) = []"
| "children (Elem n a cs) = cs"

text \<open>\<open>.text\<close>: the strings below a node, joined in document order.\<close>

fun text_of :: "'a node \<Rightarrow> string" where
  "text_of (Text t) = t"
| "text_of (Elem n a cs) = concat (map text_of cs)"

text \<open>A node and everything below it, in document order.\<close>

fun descendants_or_self :: "'a node \<Rightarrow> 'a node list" where
  "descendants_or_self (Text t) = [Text t]"
| "descendants_or_self (Elem n a cs) = Elem n a cs # concat (map descendants_or_self cs)"

definition has_name :: "string list \<Rightarrow> 'a node \<Rightarrow> bool" where
  "has_name names n = (case node_name n of None \<Rightarrow> False | Some nm \<Rightarrow> nm \<in> set names)"

text \<open>
  \<open>tag.find_all(names)\<close> searches below the tag; it is given the tag's children (for the
  soup itself, the top-level nodes). \<open>tag.find(name)\<close> is the first result, if any.
\<close>

definition bs_find_all :: "string list \<Rightarrow> 'a node list \<Rightarrow> 'a node list" where
  "bs_find_all names forest = filter (has_name names) (concat (map descendants_or_self forest))"

definition bs_find :: "string \<Rightarrow> 'a node list \<Rightarrow> 'a node option" where
  "bs_find name forest = (case bs_find_all [name] forest of [] \<Rightarrow> None | n # _ \<Rightarrow> Some n)"

text \<open>\<open>tag.find(string=re.compile(...))\<close>: the first text node the pattern is found in.\<close>

fun is_matching_text :: "(unit cont \<Rightarrow> unit cont) \<Rightarrow> 'a node \<Rightarrow> bool" where
  "is_matching_text re (Text t) = re_search re t"
| "is_matching_text re (Elem n a cs) = False"

definition bs_find_string :: "(unit cont \<Rightarrow> unit cont) \<Rightarrow> 'a node list \<Rightarrow> 'a node option" where
  "bs_find_string re forest =
     List.find (is_matching_text re) (concat (map descendants_or_self forest))"

section \<open>Pages and the libraries the processor calls\<close>

text \<open>
  The page dictionary \<open>get_page_by_id\<close> returns, with the keys \<open>process_page\<close> reads. The
  source reads every key with \<open>.get\<close> and a default, so each may be absent.
\<close>

record page =
  pg_id :: "string option"
  pg_title :: "string option"
  pg_space_key :: "string option"
  pg_version_number :: "int option"
  pg_version_when :: "string option"
  pg_body_value :: "string option"
  pg_created_date :: "string option"
  pg_created_by :: "string option"

text \<open>
  What one run of \<open>process_page\<close> gets from outside the processor's own code: the HTML
  parser, the serialisation \<open>str(node)\<close>, the conversion to markdown (\<open>_html_to_markdown\<close>,
  which is BeautifulSoup and \<open>markdown2\<close>), the summary and embedding services, the clock,
  the wiki client, the search index client (each may raise), and the error, if any, that
  \<open>sqlite3\<close> raises under the run's \<open>cache.get\<close> and under its \<open>cache.set\<close>.
\<close>

record ('a, 'v) libs =
  parse_html :: "string \<Rightarrow> 'a node list"
  str_node :: "'a node \<Rightarrow> string"
  html_to_markdown :: "string \<Rightarrow> string"
  get_summary :: "string \<Rightarrow> error + string"
  get_embedding :: "string \<Rightarrow> error + 'v list option"
  current_timestamp :: string
  base_url :: string
  get_page_by_id :: "string \<Rightarrow> error + page"
  index_documents :: "'v search_dict list \<Rightarrow> error + unit"
  sqlite_fault_get :: "error option"
  sqlite_fault_set :: "error option"

text \<open>\<open>str(soup)\<close>: the top-level nodes, serialised one after the other.\<close>

definition str_soup :: "('a, 'v) libs \<Rightarrow> 'a node list \<Rightarrow> string" where
  "str_soup L forest = concat (map (str_node L) forest)"

section \<open>Metadata extraction (\<open>_extract_metadata\<close>)\<close>

text \<open>
  \<open>table.find("th") or table.find("td")\<close> (a tag is always true), then the test that the
  cell's text, lower-cased, contains both words.
\<close>

definition is_control_table :: "'a node \<Rightarrow> bool" where
  "is_control_table table =
     (case (case bs_find ''th'' (children table) of
              Some c \<Rightarrow> Some c
            | None \<Rightarrow> bs_find ''td'' (children table)) of
        None \<Rightarrow> False
      | Some first_cell \<Rightarrow>
          py_in ''document'' (py_lower (text_of first_cell)) \<and>
          py_in ''control'' (py_lower (text_of first_cell)))"

definition has_document_id_text :: "'a node \<Rightarrow> bool" where
  "has_document_id_text table =
     (bs_find_string (re_lit_ci ''Document ID'') (children table) \<noteq> None)"

definition find_metadata_table :: "'a node list \<Rightarrow> 'a node option" where
  "find_metadata_table soup =
     (let tables = bs_find_all [''table''] soup in
      case List.find is_control_table tables of
        Some t \<Rightarrow> Some t
      | None \<Rightarrow> List.find has_document_id_text tables)"

text \<open>
  \<open>_parse_document_id\<close>: the type from the prefix, the project code from
  \<open>re.match(r"(?:ABRD|FBRD)-([A-Z0-9]+)-\d{4}-[\d\.]+", document_id)\<close>.
\<close>

definition match_document_id :: "string \<Rightarrow> string option" where
  "match_document_id s =
     re_alt [re_lit ''ABRD'', re_lit ''FBRD'']
       (re_lit ''-'' (re_group (re_plus is_code_char)
         (\<lambda>g. re_lit ''-'' (re_cls is_digit (re_cls is_digit (re_cls is_digit (re_cls is_digit
            (re_lit ''-'' (re_plus (\<lambda>c. is_digit c \<or> c = CHR ''.'') (\<lambda>_. Some g))))))))))
       s"

definition parse_document_id :: "DocumentMetadata \<Rightarrow> string \<Rightarrow> DocumentMetadata" where
  "parse_document_id metadata doc_id =
     (let m1 = metadata\<lparr>document_type :=
                 (if startswith doc_id ''ABRD-'' then ABRD
                  else if startswith doc_id ''FBRD-'' then FBRD
                  else UNKNOWN)\<rparr>
      in case match_document_id doc_id of
           Some code \<Rightarrow> m1\<lparr>project_code := code\<rparr>
         | None \<Rightarrow> m1)"

text \<open>
  The labels of the \<open>if\<close>/\<open>elif\<close> chain, in its order; \<open>row_label\<close> is the branch a key
  takes (every test is a \<open>re.search\<close> under \<open>re.IGNORECASE\<close>).
\<close>

datatype label = DocumentId | Version | Status | Created | Updated | Owner

definition row_label :: "string \<Rightarrow> label option" where
  "row_label key =
     (if re_search (\<lambda>k. re_lit_ci ''document'' (re_star is_space (re_lit_ci ''id'' k))) key
        then Some DocumentId
      else if re_search (re_lit_ci ''version'') key then Some Version
      else if re_search (re_lit_ci ''status'') key then Some Status
      else if re_search (re_alt [re_lit_ci ''created'', re_lit_ci ''date created'']) key
        then Some Created
      else if re_search (re_alt [re_lit_ci ''updated'', re_lit_ci ''last updated'']) key
        then Some Updated
      else if re_search (re_alt [re_lit_ci ''owner'', re_lit_ci ''author'']) key
        then Some Owner
      else None)"

fun assign :: "DocumentMetadata \<Rightarrow> label \<Rightarrow> string \<Rightarrow> DocumentMetadata" where
  "assign metadata DocumentId v = parse_document_id (metadata\<lparr>document_id := v\<rparr>) v"
| "assign metadata Version v = metadata\<lparr>document_version := v\<rparr>"
| "assign metadata Status v = metadata\<lparr>status := v\<rparr>"
| "assign metadata Created v = metadata\<lparr>created_date := v\<rparr>"
| "assign metadata Updated v = metadata\<lparr>last_updated_date := v\<rparr>"
| "assign metadata Owner v = metadata\<lparr>document_owner := v\<rparr>"

text \<open>
  The stripped texts of the first two cells of a row, when the row has two cells or more
  (\<open>len(cells) >= 2\<close>).
\<close>

definition row_key_value :: "'a node \<Rightarrow> (string \<times> string) option" where
  "row_key_value row =
     (case bs_find_all [''th'', ''td''] (children row) of
        c0 # c1 # _ \<Rightarrow> Some (py_strip (text_of c0), py_strip (text_of c1))
      | _ \<Rightarrow> None)"

text \<open>One turn of the loop over the rows, and the loop.\<close>

definition metadata_row :: "DocumentMetadata \<Rightarrow> 'a node \<Rightarrow> DocumentMetadata" where
  "metadata_row metadata row =
     (case row_key_value row of
        None \<Rightarrow> metadata
      | Some (key, v) \<Rightarrow>
          (case row_label key of None \<Rightarrow> metadata | Some l \<Rightarrow> assign metadata l v))"

definition metadata_from_table :: "'a node \<Rightarrow> DocumentMetadata" where
  "metadata_from_table table =
     foldl metadata_row new_metadata (bs_find_all [''tr''] (children table))"

text \<open>
  The defaults for what the table did not give. (\<open>if not metadata.document_type\<close> never
  holds: every member of the enumeration is a non-empty string.)
\<close>

definition metadata_defaults :: "page \<Rightarrow> DocumentMetadata \<Rightarrow> DocumentMetadata" where
  "metadata_defaults pg m0 =
     (let m1 = (if document_id m0 = [] then
                  m0\<lparr>document_id := ''DOC-'' @ (case pg_id pg of None \<Rightarrow> ''None'' | Some i \<Rightarrow> i)\<rparr>
                else m0);
          m2 = (if document_version m1 = [] then
                  m1\<lparr>document_version :=
                       (case pg_version_number pg of None \<Rightarrow> ''1.0'' | Some n \<Rightarrow> py_str_int n)\<rparr>
                else m1);
          m3 = (if status m2 = [] then m2\<lparr>status := ''UNKNOWN''\<rparr> else m2);
          m4 = (if created_date m3 = [] then
                  (case pg_created_date pg of
                     None \<Rightarrow> m3
                   | Some created \<Rightarrow> if created \<noteq> [] then m3\<lparr>created_date := created\<rparr> else m3)
                else m3);
          m5 = (if last_updated_date m4 = [] then
                  (case pg_version_when pg of
                     None \<Rightarrow> m4
                   | Some w \<Rightarrow> if w \<noteq> [] then m4\<lparr>last_updated_date := w\<rparr> else m4)
                else m4);
          m6 = (if document_owner m5 = [] then
                  (case pg_created_by pg of
                     None \<Rightarrow> m5
                   | Some creator \<Rightarrow> if creator \<noteq> [] then m5\<lparr>document_owner := creator\<rparr> else m5)
                else m5)
      in m6)"

definition page_html :: "page \<Rightarrow> string" where
  "page_html pg = (case pg_body_value pg of None \<Rightarrow> [] | Some h \<Rightarrow> h)"

definition extract_metadata :: "('a, 'v) libs \<Rightarrow> page \<Rightarrow> DocumentMetadata" where
  "extract_metadata L pg =
     (let soup = parse_html L (page_html pg) in
      metadata_defaults pg
        (case find_metadata_table soup of
           None \<Rightarrow> new_metadata
         | Some table \<Rightarrow> metadata_from_table table))"






section \<open>Section segmentation (\<open>_split_content_into_sections\<close>)\<close>

definition heading_tags :: "string list" where
  "heading_tags = [''h1'', ''h2'', ''h3'', ''h4'', ''h5'', ''h6'']"

text \<open>
  \<open>soup.find_all(["h1", ..., "h6"])\<close> together with what the loop reads from each heading:
  every heading of the document, in document order, paired with the nodes after it under
  the same parent (the chain of \<open>next_sibling\<close>).
\<close>

fun headings_with_siblings :: "'a node list \<Rightarrow> ('a node \<times> 'a node list) list" where
  "headings_with_siblings [] = []"
| "headings_with_siblings (Text t # rest) = headings_with_siblings rest"
| "headings_with_siblings (Elem n a cs # rest) =
     (if n \<in> set heading_tags then [(Elem n a cs, rest)] else []) @
     headings_with_siblings cs @ headings_with_siblings rest"

text \<open>\<open>int(heading_tag[1])\<close>: the value of the digit after the \<open>h\<close>.\<close>

definition digit_value :: "char \<Rightarrow> nat" where
  "digit_value c = length (takeWhile (\<lambda>d. d \<noteq> c) ''0123456789'')"

definition heading_level :: "'a node \<Rightarrow> nat" where
  "heading_level heading =
     (case node_name heading of None \<Rightarrow> 0 | Some heading_tag \<Rightarrow> digit_value (heading_tag ! 1))"

text \<open>
  \<open>re.match(r"^(\d+(?:\.\d+)*)\s+(.+)$", heading_text)\<close>: the section number (group 1) and
  the remaining title (group 2).
\<close>

definition match_section_number :: "string \<Rightarrow> (string \<times> string) option" where
  "match_section_number s =
     re_group
       (\<lambda>k. re_plus is_digit
              (re_star_group (length s) (\<lambda>k'. re_lit ''.'' (re_plus is_digit k')) k))
       (\<lambda>number. re_plus is_space
          (re_group (re_plus (\<lambda>c. c \<noteq> CHR 0x0A))
             (\<lambda>text. re_eol (\<lambda>_. Some (number, text)))))
       s"

text \<open>
  The truth value of a node in \<open>while current and ...\<close>: a tag is always true, a string
  node is true when it is not empty.
\<close>

fun node_truthy :: "'a node \<Rightarrow> bool" where
  "node_truthy (Text t) = (t \<noteq> [])"
| "node_truthy (Elem n a cs) = True"

text \<open>\<open>current.name and current.name not in ["h1", ..., "h6"]\<close>.\<close>

definition is_content_element :: "'a node \<Rightarrow> bool" where
  "is_content_element current =
     (case node_name current of
        None \<Rightarrow> False
      | Some nm \<Rightarrow> nm \<noteq> [] \<and> nm \<notin> set heading_tags)"

text \<open>
  The \<open>while\<close> loop that fills \<open>content_elements\<close>. \<open>is_last\<close> is \<open>i == len(headings) - 1\<close>,
  \<open>later\<close> is \<open>headings[i+1:]\<close>, and the last argument is the chain of siblings from
  \<open>heading.next_sibling\<close> on. Membership in \<open>later\<close> is Python's \<open>in\<close>, which compares tags
  by name, attributes and contents.
\<close>

fun collect_content ::
  "('a, 'v) libs \<Rightarrow> bool \<Rightarrow> 'a node list \<Rightarrow> 'a node list \<Rightarrow> string list" where
  "collect_content L is_last later [] = []"
| "collect_content L is_last later (current # siblings) =
     (if node_truthy current \<and> (is_last \<or> current \<notin> set later) then
        (if is_content_element current then [str_node L current] else []) @
        collect_content L is_last later siblings
      else [])"

text \<open>The body of the loop over the headings, for the heading at index \<open>i\<close>.\<close>

definition make_section ::
  "('a, 'v) libs \<Rightarrow> nat \<Rightarrow> 'a node \<Rightarrow> 'a node list \<Rightarrow> bool \<Rightarrow> 'a node list \<Rightarrow> DocumentSection" where
  "make_section L i heading later is_last siblings =
     (let heading_text = py_strip (text_of heading);
          number_match = match_section_number heading_text;
          number = (case number_match of None \<Rightarrow> [] | Some (n, t) \<Rightarrow> n);
          heading_text' = (case number_match of None \<Rightarrow> heading_text | Some (n, t) \<Rightarrow> t);
          sid = (if number \<noteq> [] then ''section_'' @ replace_char CHR ''.'' CHR ''_'' number
                 else ''section_'' @ py_str_int (int i + 1));
          content_elements = collect_content L is_last later siblings;
          c = html_to_markdown L (concat content_elements)
      in \<lparr>section_id = sid, title = heading_text', level = heading_level heading,
          content = c, section_number = number,
          requirement_ids = findall_requirements c\<rparr>)"

fun sections_loop ::
  "('a, 'v) libs \<Rightarrow> nat \<Rightarrow> ('a node \<times> 'a node list) list \<Rightarrow> DocumentSection list" where
  "sections_loop L i [] = []"
| "sections_loop L i ((heading, siblings) # rest) =
     make_section L i heading (map fst rest) (rest = []) siblings # sections_loop L (Suc i) rest"

text \<open>
  The segmentation of a parsed document, and \<open>_split_content_into_sections\<close> itself (its
  \<open>metadata\<close> argument is never read). Without headings the whole document is one section,
  built without \<open>requirement_ids\<close>, which so keeps its default, the empty list.
\<close>

definition sections_of_soup :: "('a, 'v) libs \<Rightarrow> 'a node list \<Rightarrow> DocumentSection list" where
  "sections_of_soup L soup =
     (let headings = headings_with_siblings soup in
      if headings = [] then
        [\<lparr>section_id = ''section_1'', title = ''Main Content'', level = 1,
          content = html_to_markdown L (str_soup L soup), section_number = [],
          requirement_ids = []\<rparr>]
      else sections_loop L 0 headings)"

definition split_content_into_sections :: "('a, 'v) libs \<Rightarrow> string \<Rightarrow> DocumentSection list" where
  "split_content_into_sections L html_content = sections_of_soup L (parse_html L html_content)"

text \<open>
  For the properties of the segmentation: a heading element; the run of siblings after a
  heading, up to the first sibling that is a heading of any level (or an empty string node,
  at which the loop stops too); and the content the run gives.
\<close>

definition is_heading :: "'a node \<Rightarrow> bool" where
  "is_heading n = has_name heading_tags n"

definition sibling_run :: "'a node list \<Rightarrow> 'a node list" where
  "sibling_run siblings = takeWhile (\<lambda>c. node_truthy c \<and> \<not> is_heading c) siblings"

definition section_content :: "('a, 'v) libs \<Rightarrow> 'a node list \<Rightarrow> string" where
  "section_content L siblings =
     html_to_markdown L
       (concat (map (str_node L) (filter is_content_element (sibling_run siblings))))"

text \<open>
  Every heading among the siblings recorded for a heading is itself a later entry of the
  list (or a member of \<open>S\<close>).
\<close>

fun closed_under :: "'a node set \<Rightarrow> ('a node \<times> 'a node list) list \<Rightarrow> bool" where
  "closed_under S [] = True"
| "closed_under S ((h, sibs) # rest) =
     ((\<forall>c\<in>set sibs. is_heading c \<longrightarrow> c \<in> fst ` set rest \<union> S) \<and> closed_under S rest)"

text \<open>A page with the given identifier, revision number and body.\<close>

definition wiki_page :: "string \<Rightarrow> int \<Rightarrow> string \<Rightarrow> page" where
  "wiki_page i n html =
     \<lparr>pg_id = Some i, pg_title = Some ''Title'', pg_space_key = Some ''SPACE'',
      pg_version_number = Some n, pg_version_when = None, pg_body_value = Some html,
      pg_created_date = None, pg_created_by = None\<rparr>"

text \<open>
  Stand-ins for the outside, to run the model on concrete documents: the wiki serves the
  page \<open>pg\<close>, the parser returns the tree \<open>soup\<close> for its body, tags without attributes are
  serialised as \<open>str\<close> does, the conversion to markdown leaves the text as it is, no summary
  and no embedding are produced, the index accepts every batch, and the store does not fail.
\<close>

fun render_node :: "unit node \<Rightarrow> string" where
  "render_node (Text t) = t"
| "render_node (Elem n a cs) =
     ''<'' @ n @ ''>'' @ concat (map render_node cs) @ ''</'' @ n @ ''>''"

definition plain_libs :: "page \<Rightarrow> unit node list \<Rightarrow> (unit, nat) libs" where
  "plain_libs pg soup =
     \<lparr>parse_html = (\<lambda>html. soup),
      str_node = render_node, html_to_markdown = (\<lambda>s. s),
      get_summary = (\<lambda>s. Inr []), get_embedding = (\<lambda>s. Inr None),
      current_timestamp = ''2025-01-01T00:00:00'', base_url = ''https://wiki'',
      get_page_by_id = (\<lambda>page_id. Inr pg), index_documents = (\<lambda>documents. Inr ()),
      sqlite_fault_get = None, sqlite_fault_set = None\<rparr>"

text \<open>A heading whose next heading lies inside the element that follows it.\<close>

definition nested_heading_soup :: "unit node list" where
  "nested_heading_soup =
     [Elem ''h1'' () [Text ''1 Scope''],
      Elem ''div'' () [Elem ''h2'' () [Text ''1.1 Detail''], Elem ''p'' () [Text ''b'']],
      Elem ''h1'' () [Text ''2 Design'']]"

section \<open>Versions as floating-point numbers\<close>

text \<open>
  \<open>float(n)\<close> of a Python integer: the nearest double, ties to the even mantissa, and
  \<open>OverflowError\<close> when that is beyond the largest double. A double that is the image of an
  integer is an integer itself, so the value is modelled as that integer, and the comparison
  of two such floats is the comparison of integers.
\<close>

function bit_length :: "nat \<Rightarrow> nat" where
  "bit_length n = (if n = 0 then 0 else Suc (bit_length (n div 2)))"
  by pat_completeness auto
termination
  by (relation "measure id") auto

declare bit_length.simps [simp del]

definition round_to_double :: "nat \<Rightarrow> nat" where
  "round_to_double m =
     (if bit_length m \<le> 53 then m
      else let s = bit_length m - 53;
               q = m div 2 ^ s;
               r = m mod 2 ^ s;
               half = 2 ^ (s - 1);
               q' = (if half < r \<or> (r = half \<and> odd q) then q + 1 else q)
           in q' * 2 ^ s)"

definition py_float :: "int \<Rightarrow> error + int" where
  "py_float n =
     (let a = round_to_double (nat \<bar>n\<bar>) in
      if 2 ^ 1024 \<le> a then Inl OverflowError
      else Inr (if n < 0 then - int a else int a))"

section \<open>The cache (utils/cache.py)\<close>

text \<open>
  The table \<open>document_cache\<close>: one row for each key, in the order of insertion. The columns
  \<open>created_at\<close> and \<open>last_accessed\<close> are left out: none of the operations below reads them.
  Each operation runs its statements in one \<open>try\<close> block over one connection; \<open>fault\<close> is the
  error that \<open>sqlite3\<close> raises in that block, if it raises one, and a block that raises
  leaves the table as it was.
\<close>

type_synonym 'r store = "(string \<times> 'r) list"

definition sqlite :: "error option \<Rightarrow> 'x \<Rightarrow> error + 'x" where
  "sqlite fault x = (case fault of Some e \<Rightarrow> Inl e | None \<Rightarrow> Inr x)"

text \<open>\<open>_init_db\<close> logs the error and raises it again.\<close>

definition init_db :: "error option \<Rightarrow> 'r store \<Rightarrow> error + 'r store" where
  "init_db fault db = (case sqlite fault db of Inl e \<Rightarrow> Inl e | Inr db' \<Rightarrow> Inr db')"

text \<open>
  The five operations end every \<open>except Exception\<close> with a \<open>return\<close>. Their results are
  typed as a call's result (\<open>Inl\<close> would be an exception that leaves the method).
\<close>

definition cache_get :: "error option \<Rightarrow> 'r store \<Rightarrow> string \<Rightarrow> error + 'r option" where
  "cache_get fault db key =
     (case sqlite fault (map_of db key) of Inl e \<Rightarrow> Inr None | Inr result \<Rightarrow> Inr result)"

definition cache_set ::
  "error option \<Rightarrow> 'r store \<Rightarrow> string \<Rightarrow> 'r \<Rightarrow> (error + bool) \<times> 'r store" where
  "cache_set fault db key v =
     (case sqlite fault (filter (\<lambda>row. fst row \<noteq> key) db @ [(key, v)]) of
        Inl e \<Rightarrow> (Inr False, db)
      | Inr db' \<Rightarrow> (Inr True, db'))"

definition cache_delete :: "error option \<Rightarrow> 'r store \<Rightarrow> string \<Rightarrow> (error + bool) \<times> 'r store" where
  "cache_delete fault db key =
     (case sqlite fault (filter (\<lambda>row. fst row \<noteq> key) db) of
        Inl e \<Rightarrow> (Inr False, db)
      | Inr db' \<Rightarrow> (Inr True, db'))"

definition cache_clear :: "error option \<Rightarrow> 'r store \<Rightarrow> (error + nat) \<times> 'r store" where
  "cache_clear fault db =
     (case sqlite fault (length db) of
        Inl e \<Rightarrow> (Inr 0, db)
      | Inr count \<Rightarrow> (Inr count, []))"

definition cache_get_keys :: "error option \<Rightarrow> 'r store \<Rightarrow> error + string list" where
  "cache_get_keys fault db =
     (case sqlite fault (map fst db) of Inl e \<Rightarrow> Inr [] | Inr keys \<Rightarrow> Inr keys)"

section \<open>The processor (\<open>DocumentProcessor.process_page\<close>)\<close>

record processor =
  summarize :: bool
  vectorize :: bool
  force_reindex :: bool

text \<open>The dictionary \<open>process_page\<close> stores under the page id.\<close>

record cache_record =
  cr_version :: int
  cr_metadata :: DocumentMetadata
  cr_processed_at :: string
  cr_document_count :: nat
  cr_vectorized :: bool

text \<open>
  What persists between runs: the cache, and the batches the search index has accepted,
  oldest first.
\<close>

record 'v state =
  cache :: "cache_record store"
  uploads :: "'v search_dict list list"

text \<open>The messages \<open>process_page\<close> logs, by the line that logs them.\<close>

datatype log =
    NotNewer
  | Newer
  | ForceReindex
  | NotInCache
  | SkipStatus
  | Success nat
  | Exception error

definition page_version :: "page \<Rightarrow> int" where
  "page_version pg = (case pg_version_number pg of None \<Rightarrow> 0 | Some n \<Rightarrow> n)"

text \<open>
  The version gate (lines 80 to 97): the message it logs, \<open>NotNewer\<close> for a skip; a cache
  record is a dictionary with five keys, so \<open>cached_data\<close> is true exactly when it is there.
\<close>

definition version_gate :: "bool \<Rightarrow> cache_record option \<Rightarrow> int \<Rightarrow> error + log" where
  "version_gate force cached_data current_version =
     (case cached_data of
        Some data \<Rightarrow>
          if \<not> force then
            (case py_float (cr_version data) of
               Inl e \<Rightarrow> Inl e
             | Inr cached_version \<Rightarrow>
                 (case py_float current_version of
                    Inl e \<Rightarrow> Inl e
                  | Inr current \<Rightarrow>
                      if current \<le> cached_version then Inr NotNewer else Inr Newer))
          else Inr ForceReindex
      | None \<Rightarrow> if force then Inr ForceReindex else Inr NotInCache)"

definition get_page_url :: "('a, 'v) libs \<Rightarrow> page \<Rightarrow> string" where
  "get_page_url L pg =
     base_url L @ ''/display/'' @ (case pg_space_key pg of None \<Rightarrow> [] | Some k \<Rightarrow> k) @
     ''/'' @ (case pg_id pg of None \<Rightarrow> [] | Some i \<Rightarrow> i)"

text \<open>\<open>bool(vector)\<close>.\<close>

definition vector_truthy :: "'v list option \<Rightarrow> bool" where
  "vector_truthy v = (case v of None \<Rightarrow> False | Some xs \<Rightarrow> xs \<noteq> [])"

text \<open>The identifier of a record: page, version and part.\<close>

definition record_id :: "string \<Rightarrow> int \<Rightarrow> string \<Rightarrow> string" where
  "record_id page_id current_version part =
     page_id @ ''_v'' @ py_str_int current_version @ ''_'' @ part"

definition full_document ::
  "('a, 'v) libs \<Rightarrow> page \<Rightarrow> string \<Rightarrow> int \<Rightarrow> DocumentMetadata \<Rightarrow> string \<Rightarrow> string \<Rightarrow>
   'v list option \<Rightarrow> 'v SearchableDocument" where
  "full_document L pg page_id current_version md markdown_content summary vector =
     \<lparr>sd_id = record_id page_id current_version ''full'',
      sd_content = markdown_content,
      sd_source_page_id = page_id,
      sd_source_page_title = (case pg_title pg of None \<Rightarrow> [] | Some t \<Rightarrow> t),
      sd_source_url = get_page_url L pg,
      sd_is_section = False,
      sd_section_id = [],
      sd_section_title = [],
      sd_section_level = 0,
      sd_section_number = [],
      sd_document_type = document_type md,
      sd_project_code = project_code md,
      sd_document_id = document_id md,
      sd_document_version = document_version md,
      sd_document_status = status md,
      sd_created_date = created_date md,
      sd_last_updated_date = last_updated_date md,
      sd_document_owner = document_owner md,
      sd_summary = summary,
      sd_requirement_ids = [],
      sd_vectorized = vector_truthy vector,
      sd_vector = vector\<rparr>"

definition section_document ::
  "('a, 'v) libs \<Rightarrow> page \<Rightarrow> string \<Rightarrow> int \<Rightarrow> DocumentMetadata \<Rightarrow> DocumentSection \<Rightarrow>
   'v list option \<Rightarrow> 'v SearchableDocument" where
  "section_document L pg page_id current_version md section section_vector =
     \<lparr>sd_id = record_id page_id current_version (section_id section),
      sd_content = content section,
      sd_source_page_id = page_id,
      sd_source_page_title = (case pg_title pg of None \<Rightarrow> [] | Some t \<Rightarrow> t),
      sd_source_url = get_page_url L pg,
      sd_is_section = True,
      sd_section_id = section_id section,
      sd_section_title = title section,
      sd_section_level = level section,
      sd_section_number = section_number section,
      sd_document_type = document_type md,
      sd_project_code = project_code md,
      sd_document_id = document_id md,
      sd_document_version = document_version md,
      sd_document_status = status md,
      sd_created_date = created_date md,
      sd_last_updated_date = last_updated_date md,
      sd_document_owner = document_owner md,
      sd_summary = [],
      sd_requirement_ids = requirement_ids section,
      sd_vectorized = vector_truthy section_vector,
      sd_vector = section_vector\<rparr>"

text \<open>The loop over the sections (lines 156 to 186); an embedding that raises ends it.\<close>

fun section_documents ::
  "processor \<Rightarrow> ('a, 'v) libs \<Rightarrow> page \<Rightarrow> string \<Rightarrow> int \<Rightarrow> DocumentMetadata \<Rightarrow>
   DocumentSection list \<Rightarrow> error + 'v search_dict list" where
  "section_documents self L pg page_id current_version md [] = Inr []"
| "section_documents self L pg page_id current_version md (section # rest) =
     (case (if vectorize self then get_embedding L (content section) else Inr None) of
        Inl e \<Rightarrow> Inl e
      | Inr section_vector \<Rightarrow>
          (case section_documents self L pg page_id current_version md rest of
             Inl e \<Rightarrow> Inl e
           | Inr docs \<Rightarrow>
               Inr (to_dict (section_document L pg page_id current_version md section
                               section_vector) # docs)))"

text \<open>Lines 109 to 186: the list \<open>documents\<close>, or the exception of a service.\<close>

definition build_documents ::
  "processor \<Rightarrow> ('a, 'v) libs \<Rightarrow> page \<Rightarrow> string \<Rightarrow> int \<Rightarrow> DocumentMetadata \<Rightarrow>
   error + 'v search_dict list" where
  "build_documents self L pg page_id current_version md =
     (let html_content = page_html pg;
          sections = split_content_into_sections L html_content;
          markdown_content = html_to_markdown L html_content
      in case (if summarize self then get_summary L markdown_content else Inr []) of
           Inl e \<Rightarrow> Inl e
         | Inr summary \<Rightarrow>
             (case (if vectorize self then get_embedding L markdown_content else Inr None) of
                Inl e \<Rightarrow> Inl e
              | Inr vector \<Rightarrow>
                  (case section_documents self L pg page_id current_version md sections of
                     Inl e \<Rightarrow> Inl e
                   | Inr docs \<Rightarrow>
                       Inr (to_dict (full_document L pg page_id current_version md
                                       markdown_content summary vector) # docs))))"

text \<open>
  Lines 99 to 205, entered after the version gate has logged \<open>decision\<close>: the status gate,
  the documents, the upload and the cache record. The result of \<open>cache.set\<close> is not read.
\<close>

definition process_document ::
  "processor \<Rightarrow> ('a, 'v) libs \<Rightarrow> 'v state \<Rightarrow> string \<Rightarrow> page \<Rightarrow> log \<Rightarrow>
   bool \<times> log list \<times> 'v state" where
  "process_document self L s page_id pg decision =
     (let current_version = page_version pg;
          md = extract_metadata L pg
      in if py_upper (status md) \<notin> set [''DRAFT'', ''APPROVED''] then
           (True, [decision, SkipStatus], s)
         else
           (case build_documents self L pg page_id current_version md of
              Inl e \<Rightarrow> (False, [decision, Exception e], s)
            | Inr documents \<Rightarrow>
                (case index_documents L documents of
                   Inl e \<Rightarrow> (False, [decision, Exception e], s)
                 | Inr result \<Rightarrow>
                     (let s1 = s\<lparr>uploads := uploads s @ [documents]\<rparr>;
                          written = cache_set (sqlite_fault_set L) (cache s1) page_id
                            \<lparr>cr_version = current_version, cr_metadata = md,
                             cr_processed_at = current_timestamp L,
                             cr_document_count = length documents,
                             cr_vectorized = vectorize self\<rparr>
                      in case fst written of
                           Inl e \<Rightarrow> (False, [decision, Exception e], s1\<lparr>cache := snd written\<rparr>)
                         | Inr ok \<Rightarrow>
                             (True, [decision, Success (length documents)],
                              s1\<lparr>cache := snd written\<rparr>)))))"

text \<open>
  \<open>process_page\<close>: the value returned, the messages logged, and the state after the run.
  Every exception ends the run in the handler of line 207, which returns \<open>False\<close>.
\<close>

definition process_page ::
  "processor \<Rightarrow> ('a, 'v) libs \<Rightarrow> 'v state \<Rightarrow> string \<Rightarrow> bool \<times> log list \<times> 'v state" where
  "process_page self L s page_id =
     (case get_page_by_id L page_id of
        Inl e \<Rightarrow> (False, [Exception e], s)
      | Inr pg \<Rightarrow>
          (case cache_get (sqlite_fault_get L) (cache s) page_id of
             Inl e \<Rightarrow> (False, [Exception e], s)
           | Inr cached_data \<Rightarrow>
               (case version_gate (force_reindex self) cached_data (page_version pg) of
                  Inl e \<Rightarrow> (False, [Exception e], s)
                | Inr decision \<Rightarrow>
                    if decision = NotNewer then (True, [NotNewer], s)
                    else process_document self L s page_id pg decision)))"

text \<open>
  \<open>process_page\<close> for the same page id in one run after the other, each run with its own
  outside: the results, oldest first, and the state after the last run.
\<close>

fun process_runs ::
  "processor \<Rightarrow> 'v state \<Rightarrow> string \<Rightarrow> ('a, 'v) libs list \<Rightarrow>
   (bool \<times> log list) list \<times> 'v state" where
  "process_runs self s page_id [] = ([], s)"
| "process_runs self s page_id (L # Ls) =
     (case process_page self L s page_id of
        (ok, logs, s') \<Rightarrow>
          (case process_runs self s' page_id Ls of
             (results, s'') \<Rightarrow> ((ok, logs) # results, s'')))"

text \<open>
  Concrete runs: a control table that gives the status \<open>st\<close>, a processor with every option
  off, the state before the first run, and an outside in which every \<open>cache.get\<close> fails.
\<close>

definition control_table :: "string \<Rightarrow> unit node" where
  "control_table st =
     Elem ''table'' ()
       [Elem ''tr'' () [Elem ''th'' () [Text ''Document Control'']],
        Elem ''tr'' () [Elem ''td'' () [Text ''Status''], Elem ''td'' () [Text st]]]"

definition plain_processor :: processor where
  "plain_processor = \<lparr>summarize = False, vectorize = False, force_reindex = False\<rparr>"

definition empty_state :: "nat state" where
  "empty_state = \<lparr>cache = [], uploads = []\<rparr>"

definition failing_get_libs :: "(unit, nat) libs" where
  "failing_get_libs =
     (plain_libs (wiki_page ''P'' 1 []) [control_table ''Approved''])
       \<lparr>sqlite_fault_get := Some StorageError\<rparr>"

text \<open>
  A state in which the page \<open>P\<close> is cached at version \<open>n\<close>, and an outside whose page \<open>P\<close>
  (revision 1) carries the status \<open>Rejected\<close>.
\<close>

definition cached_state :: "int \<Rightarrow> nat state" where
  "cached_state n =
     \<lparr>cache = [(''P'', \<lparr>cr_version = n, cr_metadata = new_metadata,
                        cr_processed_at = ''2024-12-31T00:00:00'', cr_document_count = 1,
                        cr_vectorized = False\<rparr>)],
      uploads = []\<rparr>"

definition rejected_libs :: "(unit, nat) libs" where
  "rejected_libs = plain_libs (wiki_page ''P'' 1 []) [control_table ''Rejected'']"

section \<open>Properties of the program\<close>

subsection \<open>The row loop of the metadata extractor\<close>







subsection \<open>The content run of a section\<close>

lemma fst_headings: "map fst (headings_with_siblings forest) = bs_find_all heading_tags forest"
  by (induction forest rule: headings_with_siblings.induct)
     (simp_all add: bs_find_all_def has_name_def)

lemma headings_are_headings:
  "x \<in> set (headings_with_siblings forest) \<Longrightarrow> is_heading (fst x)"
  by (induction forest rule: headings_with_siblings.induct)
     (auto simp: is_heading_def has_name_def split: if_splits)

lemma closed_mono: "S \<subseteq> T \<Longrightarrow> closed_under S xs \<Longrightarrow> closed_under T xs"
  by (induction S xs rule: closed_under.induct) auto

lemma closed_append:
  "closed_under (S \<union> fst ` set ys) xs \<Longrightarrow> closed_under S ys \<Longrightarrow> closed_under S (xs @ ys)"
  by (induction S xs rule: closed_under.induct) auto

lemma sibling_heading_found:
  "c \<in> set forest \<Longrightarrow> is_heading c \<Longrightarrow> c \<in> fst ` set (headings_with_siblings forest)"
proof (induction forest rule: headings_with_siblings.induct)
  case 1
  then show ?case by simp
next
  case (2 t rest)
  then show ?case by (auto simp: is_heading_def has_name_def)
next
  case (3 n a cs rest)
  then show ?case by (auto simp: is_heading_def has_name_def)
qed

lemma closed_headings: "closed_under {} (headings_with_siblings forest)"
proof (induction forest rule: headings_with_siblings.induct)
  case 1
  then show ?case by simp
next
  case (2 t rest)
  then show ?case by simp
next
  case (3 n a cs rest)
  have tl: "closed_under {} (headings_with_siblings cs @ headings_with_siblings rest)"
    using 3 by (intro closed_append) (auto intro: closed_mono)
  show ?case
  proof (cases "n \<in> set heading_tags")
    case False
    then show ?thesis using tl by simp
  next
    case True
    have "\<forall>c\<in>set rest. is_heading c \<longrightarrow>
            c \<in> fst ` set (headings_with_siblings cs @ headings_with_siblings rest)"
      using sibling_heading_found by fastforce
    then show ?thesis using True tl by simp
  qed
qed

lemma collect_content_shape:
  "collect_content L b later sibs =
     map (str_node L) (filter is_content_element
       (takeWhile (\<lambda>c. node_truthy c \<and> (b \<or> c \<notin> set later)) sibs))"
  by (induction sibs) auto

lemma collect_content_run:
  assumes "\<forall>c\<in>set sibs. is_heading c \<longrightarrow> c \<in> set later"
    and "\<forall>c\<in>set later. is_heading c"
    and "b \<longrightarrow> later = []"
  shows "collect_content L b later sibs =
           map (str_node L) (filter is_content_element (sibling_run sibs))"
proof -
  have "takeWhile (\<lambda>c. node_truthy c \<and> (b \<or> c \<notin> set later)) sibs = sibling_run sibs"
    unfolding sibling_run_def
    using assms by (intro takeWhile_cong) auto
  then show ?thesis by (simp add: collect_content_shape)
qed

lemma sections_loop_content:
  assumes "closed_under {} hs" and "\<forall>x\<in>set hs. is_heading (fst x)"
  shows "map content (sections_loop L i hs) = map (\<lambda>x. section_content L (snd x)) hs"
  using assms
proof (induction hs arbitrary: i)
  case Nil
  then show ?case by simp
next
  case (Cons x rest)
  obtain h sibs where x: "x = (h, sibs)" by (cases x)
  have "collect_content L (rest = []) (map fst rest) sibs =
          map (str_node L) (filter is_content_element (sibling_run sibs))"
    using Cons.prems x by (intro collect_content_run) auto
  then show ?case
    using Cons x by (simp add: make_section_def Let_def section_content_def)
qed

lemma sections_content:
  "map content (sections_of_soup L soup) =
     (if headings_with_siblings soup = [] then [html_to_markdown L (str_soup L soup)]
      else map (\<lambda>x. section_content L (snd x)) (headings_with_siblings soup))"
proof -
  have "\<forall>x\<in>set (headings_with_siblings soup). is_heading (fst x)"
    using headings_are_headings by blast
  then have "map content (sections_loop L 0 (headings_with_siblings soup)) =
          map (\<lambda>x. section_content L (snd x)) (headings_with_siblings soup)"
    using closed_headings by (rule sections_loop_content[rotated])
  then show ?thesis by (simp add: sections_of_soup_def Let_def)
qed

text \<open>
  C7, as stated, fails: when the next heading lies inside the element that follows the
  heading, the run does not stop at it. The content of \<open>1 Scope\<close> is the whole \<open>div\<close>, with
  the heading \<open>1.1 Detail\<close> and the paragraph under it, which is the content of \<open>1.1 Detail\<close>
  as well.
\<close>

theorem nested_heading_counterexample:
  "map content (sections_of_soup (plain_libs (wiki_page ''P'' 1 []) []) nested_heading_soup) =
     [''<div><h2>1.1 Detail</h2><p>b</p></div>'', ''<p>b</p>'', []]"
  by code_simp

text \<open>
  C7, amended: the boundary is the next \<^emph>\<open>sibling\<close> heading. The content of the section of
  a heading is the markdown of the tagged, non-heading elements among the siblings that
  follow the heading, up to but excluding the first sibling that is a heading, whatever its
  level. With the three headings \<open>1 Scope\<close> (h1), \<open>1.1 Detail\<close> (h2), \<open>2 Design\<close> (h1) as
  siblings, the run of \<open>1 Scope\<close> stops at \<open>1.1 Detail\<close>.
\<close>

theorem sibling_boundary_rule:
  "map content (sections_of_soup L soup) =
     (if headings_with_siblings soup = [] then [html_to_markdown L (str_soup L soup)]
      else map (\<lambda>x. section_content L (snd x)) (headings_with_siblings soup)) \<and>
   section_content L (pre @ Elem ''h1'' a cs # post) = section_content L (pre @ Elem ''h6'' a cs # post') \<and>
   map content (sections_of_soup L
      [Elem ''h1'' a1 [Text ''1 Scope''], Elem ''p'' a2 [Text ''a''],
       Elem ''h2'' a3 [Text ''1.1 Detail''], Elem ''p'' a4 [Text ''b''],
       Elem ''h1'' a5 [Text ''2 Design''], Elem ''p'' a6 [Text ''c'']]) =
     [html_to_markdown L (str_node L (Elem ''p'' a2 [Text ''a''])),
      html_to_markdown L (str_node L (Elem ''p'' a4 [Text ''b''])),
      html_to_markdown L (str_node L (Elem ''p'' a6 [Text ''c'']))]"
proof (intro conjI)
  show "map content (sections_of_soup L soup) =
     (if headings_with_siblings soup = [] then [html_to_markdown L (str_soup L soup)]
      else map (\<lambda>x. section_content L (snd x)) (headings_with_siblings soup))"
    by (rule sections_content)
  have stop: "\<And>n post. n \<in> set heading_tags \<Longrightarrow>
      sibling_run (pre @ Elem n a cs # post) = sibling_run pre"
  proof -
    fix n :: string and post :: "'a node list"
    assume n: "n \<in> set heading_tags"
    let ?P = "\<lambda>c::'a node. node_truthy c \<and> \<not> is_heading c"
    have h: "\<not> ?P (Elem n a cs)"
      using n by (simp add: is_heading_def has_name_def)
    show "sibling_run (pre @ Elem n a cs # post) = sibling_run pre"
    proof (cases "\<forall>x\<in>set pre. ?P x")
      case True
      have "sibling_run (pre @ Elem n a cs # post) = pre @ takeWhile ?P (Elem n a cs # post)"
        unfolding sibling_run_def using True by (intro takeWhile_append2) auto
      also have "\<dots> = pre"
        using h by simp
      also have "pre = sibling_run pre"
        unfolding sibling_run_def using True by (intro sym[OF takeWhile_eq_all_conv[THEN iffD2]]) auto
      finally show ?thesis .
    next
      case False
      then obtain x where "x \<in> set pre" "\<not> ?P x" by blast
      then show ?thesis
        unfolding sibling_run_def by (rule takeWhile_append1)
    qed
  qed
  show "section_content L (pre @ Elem ''h1'' a cs # post) =
        section_content L (pre @ Elem ''h6'' a cs # post')"
    by (simp add: section_content_def stop heading_tags_def)
  show "map content (sections_of_soup L
      [Elem ''h1'' a1 [Text ''1 Scope''], Elem ''p'' a2 [Text ''a''],
       Elem ''h2'' a3 [Text ''1.1 Detail''], Elem ''p'' a4 [Text ''b''],
       Elem ''h1'' a5 [Text ''2 Design''], Elem ''p'' a6 [Text ''c'']]) =
     [html_to_markdown L (str_node L (Elem ''p'' a2 [Text ''a''])),
      html_to_markdown L (str_node L (Elem ''p'' a4 [Text ''b''])),
      html_to_markdown L (str_node L (Elem ''p'' a6 [Text ''c'']))]"
    by (simp add: sections_content section_content_def sibling_run_def is_heading_def
          has_name_def heading_tags_def is_content_element_def)
qed

text \<open>
  C10: the loop builds the content from siblings that are tagged elements with a
  non-heading name, and from nothing else; a string node is never a content element. So a
  text lying directly between two headings reaches no section: whatever the text \<open>t\<close>, both
  sections below have the content of an empty fragment.
\<close>

theorem text_siblings_omitted:
  "collect_content L b later sibs =
     map (str_node L) (filter is_content_element
       (takeWhile (\<lambda>c. node_truthy c \<and> (b \<or> c \<notin> set later)) sibs)) \<and>
   (is_content_element c \<longleftrightarrow> (\<exists>n a cs. c = Elem n a cs \<and> n \<noteq> [] \<and> n \<notin> set heading_tags)) \<and>
   map content (sections_of_soup L [Elem ''h1'' a1 [Text ''A''], Text t, Elem ''h2'' a2 [Text ''B'']]) =
     [html_to_markdown L [], html_to_markdown L []]"
proof (intro conjI)
  show "collect_content L b later sibs =
     map (str_node L) (filter is_content_element
       (takeWhile (\<lambda>c. node_truthy c \<and> (b \<or> c \<notin> set later)) sibs))"
    by (rule collect_content_shape)
  show "is_content_element c \<longleftrightarrow> (\<exists>n a cs. c = Elem n a cs \<and> n \<noteq> [] \<and> n \<notin> set heading_tags)"
    by (cases c) (auto simp: is_content_element_def)
  show "map content (sections_of_soup L [Elem ''h1'' a1 [Text ''A''], Text t, Elem ''h2'' a2 [Text ''B'']]) =
     [html_to_markdown L [], html_to_markdown L []]"
    by (simp add: sections_content section_content_def sibling_run_def is_heading_def
          has_name_def heading_tags_def is_content_element_def)
qed

subsection \<open>Requirement identifiers\<close>

text \<open>
  What \<open>findall_requirements\<close> returns, in terms of the language of the pattern: a prefix in
  the language is recorded and the scan goes on behind it; where no prefix is in the
  language the scan moves one character on.
\<close>

lemma findall_requirements_match:
  assumes "requirement_lang m"
  shows "findall_requirements (m @ r) = m # findall_requirements r"
proof -
  have "match_requirement (m @ r) = Some r"
    using assms by (auto simp: match_requirement_iff)
  then show ?thesis
    by (subst findall_requirements.simps) simp
qed

lemma findall_requirements_skip:
  assumes "\<And>m r. c # cs = m @ r \<Longrightarrow> \<not> requirement_lang m"
  shows "findall_requirements (c # cs) = findall_requirements cs"
proof -
  have "match_requirement (c # cs) = None"
  proof (cases "match_requirement (c # cs)")
    case None
    then show ?thesis .
  next
    case (Some r)
    then show ?thesis using assms by (auto simp: match_requirement_iff)
  qed
  then show ?thesis
    by (subst findall_requirements.simps) simp
qed

lemma findall_requirements_example:
  "findall_requirements ''See FR-ABC-001 and FR-ABC-001 again'' = [''FR-ABC-001'', ''FR-ABC-001'']"
  by code_simp

text \<open>Every section built from a heading carries the identifiers found in its content.\<close>

lemma sections_loop_requirement_ids:
  "sec \<in> set (sections_loop L i hs) \<Longrightarrow> requirement_ids sec = findall_requirements (content sec)"
  by (induction L i hs rule: sections_loop.induct) (auto simp: make_section_def Let_def)

text \<open>
  C9 at a document without headings: the single section \<open>Main Content\<close> is built without
  \<open>requirement_ids\<close>, so the list is empty although the pattern occurs twice in the content
  of the section.
\<close>

theorem fallback_section_has_no_requirement_ids:
  "sections_of_soup (plain_libs (wiki_page ''P'' 1 []) [])
     [Elem ''p'' () [Text ''See FR-ABC-001 and FR-ABC-001 again'']] =
     [\<lparr>section_id = ''section_1'', title = ''Main Content'', level = 1,
       content = ''<p>See FR-ABC-001 and FR-ABC-001 again</p>'', section_number = [],
       requirement_ids = []\<rparr>] \<and>
   findall_requirements ''<p>See FR-ABC-001 and FR-ABC-001 again</p>'' =
     [''FR-ABC-001'', ''FR-ABC-001'']"
  by code_simp

subsection \<open>The cache absorbs the errors of the store\<close>

text \<open>
  C8: whatever error the store raises, \<open>get\<close> returns nothing, \<open>set\<close> and \<open>delete\<close> return
  \<open>False\<close>, \<open>clear\<close> returns 0 and the listing of the keys is empty, with the table as it was;
  none of the five ever lets an exception out, with or without an error of the store; and a
  run of \<open>process_page\<close> whose \<open>get\<close> fails goes on as for a page that is not in the cache.
\<close>

theorem cache_errors_absorbed:
  "cache_get (Some e) db key = Inr None \<and>
   cache_set (Some e) db key v = (Inr False, db) \<and>
   cache_delete (Some e) db key = (Inr False, db) \<and>
   cache_clear (Some e) db = (Inr 0, db) \<and>
   cache_get_keys (Some e) db = Inr [] \<and>
   (\<forall>fault e'. cache_get fault db key \<noteq> Inl e' \<and> fst (cache_set fault db key v) \<noteq> Inl e' \<and>
      fst (cache_delete fault db key) \<noteq> Inl e' \<and> fst (cache_clear fault db) \<noteq> Inl e' \<and>
      cache_get_keys fault db \<noteq> Inl e') \<and>
   (get_page_by_id L page_id = Inr pg \<and> sqlite_fault_get L = Some e \<longrightarrow>
      process_page self L s page_id =
        process_document self L s page_id pg
          (if force_reindex self then ForceReindex else NotInCache))"
  by (auto simp: cache_get_def cache_set_def cache_delete_def cache_clear_def cache_get_keys_def
        sqlite_def process_page_def version_gate_def split: option.splits)

theorem cache_errors_absorbed_witness:
  "get_page_by_id failing_get_libs ''P'' = Inr (wiki_page ''P'' 1 []) \<and>
   sqlite_fault_get failing_get_libs = Some StorageError \<and>
   process_page plain_processor failing_get_libs empty_state ''P'' =
     process_document plain_processor failing_get_libs empty_state ''P'' (wiki_page ''P'' 1 [])
       NotInCache"
proof -
  have f: "get_page_by_id failing_get_libs ''P'' = Inr (wiki_page ''P'' 1 [])"
    by (simp add: failing_get_libs_def plain_libs_def)
  have g: "sqlite_fault_get failing_get_libs = Some StorageError"
    by (simp add: failing_get_libs_def)
  have n: "\<not> force_reindex plain_processor"
    by (simp add: plain_processor_def)
  show ?thesis
    using f g n
      cache_errors_absorbed [of StorageError "[]" "''P''" undefined failing_get_libs "''P''"
        "wiki_page ''P'' 1 []" plain_processor empty_state]
    by presburger
qed

subsection \<open>The version gate and the status gate\<close>

text \<open>Below \<open>2 ^ 53\<close> in magnitude, \<open>float\<close> is exact.\<close>

lemma bit_length_le: "n < 2 ^ k \<Longrightarrow> bit_length n \<le> k"
proof (induction k arbitrary: n)
  case 0
  then show ?case by (simp add: bit_length.simps)
next
  case (Suc k)
  show ?case
  proof (cases "n = 0")
    case True
    then show ?thesis by (simp add: bit_length.simps)
  next
    case False
    have "n div 2 < 2 ^ k" using Suc.prems by auto
    then have "bit_length (n div 2) \<le> k" by (rule Suc.IH)
    then show ?thesis using False by (subst bit_length.simps) simp
  qed
qed

lemma round_to_double_exact: "n < 2 ^ 53 \<Longrightarrow> round_to_double n = n"
  by (simp add: round_to_double_def bit_length_le)

lemma py_float_exact:
  assumes "\<bar>i\<bar> < 2 ^ 53"
  shows "py_float i = Inr i"
proof -
  have n: "nat \<bar>i\<bar> < 2 ^ 53" using assms by (simp add: nat_less_iff)
  have "(2::nat) ^ 53 \<le> 2 ^ 1024" by (rule power_increasing) simp_all
  then have "\<not> (2::nat) ^ 1024 \<le> nat \<bar>i\<bar>" using n by linarith
  then show ?thesis
    using n by (simp add: py_float_def round_to_double_exact Let_def)
qed

lemma py_float_small: "py_float 1 = Inr 1" "py_float 2 = Inr 2" "py_float 3 = Inr 3"
  by (simp_all add: py_float_exact)



lemma process_document_logs:
  "\<exists>x. fst (snd (process_document self L s page_id pg d)) = [d, x]"
  by (auto simp: process_document_def Let_def split: sum.splits)

lemma process_document_not_skip:
  "process_document self L s page_id pg d \<noteq> (ok, [NotNewer], s')"
  using process_document_logs[of self L s page_id pg d] by auto

lemma cache_get_Inr: "\<exists>r. cache_get fault db key = Inr r"
  by (auto simp: cache_get_def sqlite_def split: option.splits)

text \<open>
  C1: for a page that was fetched, the run skips (returns \<open>True\<close>, logs the skip, leaves cache
  and index as they were) exactly when the cache lookup returns a record, forced
  reprocessing is off, and the current version, as a float, is at most the cached version,
  as a float. It goes on to process the page (the rest of the run is \<open>process_document\<close>,
  after one of the three messages that announce processing) exactly when there is no cache
  record, or reprocessing is forced, or the current version is greater than the cached one,
  both as floats.
\<close>

theorem version_gate_decision:
  assumes "get_page_by_id L page_id = Inr pg"
  shows
   "(process_page self L s page_id = (True, [NotNewer], s) \<longleftrightarrow>
       (\<exists>data c v. cache_get (sqlite_fault_get L) (cache s) page_id = Inr (Some data) \<and>
           \<not> force_reindex self \<and> py_float (cr_version data) = Inr c \<and>
           py_float (page_version pg) = Inr v \<and> v \<le> c)) \<and>
    ((\<exists>d. (d = Newer \<or> d = ForceReindex \<or> d = NotInCache) \<and>
           hd (fst (snd (process_page self L s page_id))) = d \<and>
           process_page self L s page_id = process_document self L s page_id pg d) \<longleftrightarrow>
       (cache_get (sqlite_fault_get L) (cache s) page_id = Inr None \<or> force_reindex self \<or>
        (\<exists>data c v. cache_get (sqlite_fault_get L) (cache s) page_id = Inr (Some data) \<and>
           py_float (cr_version data) = Inr c \<and> py_float (page_version pg) = Inr v \<and> c < v)))"
proof -
  obtain r where r: "cache_get (sqlite_fault_get L) (cache s) page_id = Inr r"
    using cache_get_Inr by blast
  show ?thesis
  proof (cases "version_gate (force_reindex self) r (page_version pg)")
    case (Inl e)
    then have p: "process_page self L s page_id = (False, [Exception e], s)"
      using assms r by (simp add: process_page_def)
    have nd: "\<And>d. process_document self L s page_id pg d \<noteq> (False, [Exception e], s)"
      using process_document_logs[of self L s page_id pg] by (metis fst_conv snd_conv list.inject list.distinct(1))
    from Inl show ?thesis
      unfolding p using r nd
      by (auto simp: version_gate_def split: option.splits if_splits sum.splits)
  next
    case (Inr d)
    show ?thesis
    proof (cases "d = NotNewer")
      case True
      then have p: "process_page self L s page_id = (True, [NotNewer], s)"
        using assms r Inr by (simp add: process_page_def)
      from Inr True show ?thesis
        unfolding p using r process_document_not_skip[of self L s page_id pg]
        by (auto simp: version_gate_def split: option.splits if_splits sum.splits)
    next
      case False
      then have p: "process_page self L s page_id = process_document self L s page_id pg d"
        using assms r Inr by (simp add: process_page_def)
      obtain x where x: "fst (snd (process_document self L s page_id pg d)) = [d, x]"
        using process_document_logs by blast
      from Inr False show ?thesis
        unfolding p using r x process_document_not_skip[of self L s page_id pg d]
        by (auto simp: version_gate_def split: option.splits if_splits sum.splits)
    qed
  qed
qed



theorem version_gate_decision_witness:
  "get_page_by_id rejected_libs ''P'' = Inr (wiki_page ''P'' 1 []) \<and>
   process_page plain_processor rejected_libs (cached_state 2) ''P'' =
     (True, [NotNewer], cached_state 2)"
proof -
  have f: "get_page_by_id rejected_libs ''P'' = Inr (wiki_page ''P'' 1 [])"
    by (simp add: rejected_libs_def plain_libs_def)
  have c: "cache_get (sqlite_fault_get rejected_libs) (cache (cached_state 2)) ''P'' =
             Inr (Some \<lparr>cr_version = 2, cr_metadata = new_metadata,
                        cr_processed_at = ''2024-12-31T00:00:00'', cr_document_count = 1,
                        cr_vectorized = False\<rparr>)"
    by (simp add: rejected_libs_def plain_libs_def cached_state_def cache_get_def sqlite_def)
  have v: "page_version (wiki_page ''P'' 1 []) = 1"
    by (simp add: page_version_def wiki_page_def)
  have n: "\<not> force_reindex plain_processor"
    by (simp add: plain_processor_def)
  have "process_page plain_processor rejected_libs (cached_state 2) ''P'' =
          (True, [NotNewer], cached_state 2)"
    using version_gate_decision [OF f, of plain_processor "cached_state 2", THEN conjunct1]
      c v n py_float_small by auto
  with f show ?thesis by simp
qed



end
